theory Spec2Isabelle
  imports Main
begin

section \<open>The auction ledger of Auction.py\<close>

subsection \<open>Amounts\<close>

text \<open>
  Bid amounts are Python integers. The attribute \<open>current_max\<close> starts at
  \<^verbatim>\<open>-float('inf')\<close>, and \<open>min_bid\<close> becomes \<open>current_max + 1\<close> on a restart, so
  both attributes (and the keys of the dictionary, which is indexed with
  \<open>current_max\<close>) range over the integers extended by minus infinity.
\<close>

datatype amount = NegInf | Fin int

instantiation amount :: linorder
begin

fun less_eq_amount :: "amount \<Rightarrow> amount \<Rightarrow> bool" where
  "less_eq_amount NegInf _ = True"
| "less_eq_amount (Fin a) NegInf = False"
| "less_eq_amount (Fin a) (Fin b) = (a \<le> b)"

definition less_amount :: "amount \<Rightarrow> amount \<Rightarrow> bool" where
  "less_amount x y = (x \<le> y \<and> \<not> y \<le> x)"

instance
proof
  fix x y z :: amount
  show "(x < y) = (x \<le> y \<and> \<not> y \<le> x)"
    by (simp add: less_amount_def)
  show "x \<le> x"
    by (cases x) simp_all
  show "x \<le> y \<Longrightarrow> y \<le> z \<Longrightarrow> x \<le> z"
    by (cases x; cases y; cases z) simp_all
  show "x \<le> y \<Longrightarrow> y \<le> x \<Longrightarrow> x = y"
    by (cases x; cases y) simp_all
  show "x \<le> y \<or> y \<le> x"
    by (cases x; cases y) auto
qed

end

text \<open>\<open>current_max + 1\<close>: minus infinity plus one is minus infinity.\<close>

fun plus_one :: "amount \<Rightarrow> amount" where
  "plus_one NegInf = NegInf"
| "plus_one (Fin a) = Fin (a + 1)"

subsection \<open>State\<close>

text \<open>
  The attributes of class \<open>Auction\<close>. \<open>frequency\<close> is a \<open>defaultdict(list)\<close>:
  a dictionary from amounts to lists of bidder identifiers.
\<close>

record auction =
  min_bid :: amount
  frequency :: "amount \<rightharpoonup> string list"
  current_max :: amount
  current_max_count :: int

text \<open>
  The exceptions the three methods can raise: \<open>IndexError\<close> from \<open>[0]\<close> on an empty
  list, \<open>ValueError\<close> from a log line whose f-string converts an integer of more than
  4300 digits to text.
\<close>

datatype py_error = IndexError | ValueError

text \<open>The outcome of a call: an exception, or the returned value (\<open>None\<close> or a bidder).\<close>

type_synonym outcome = "py_error + string option"

text \<open>\<open>Auction.__init__(min_bid)\<close>, with \<open>min_bid : int\<close>.\<close>

definition Auction_init :: "int \<Rightarrow> auction" where
  "Auction_init m =
     \<lparr>min_bid = Fin m, frequency = Map.empty, current_max = NegInf, current_max_count = 0\<rparr>"

text \<open>
  \<open>d[k]\<close> on a \<open>defaultdict(list)\<close>: a missing key is first stored with a fresh
  empty list, which is then returned. The dictionary after the access is returned too.
\<close>

definition getitem :: "(amount \<rightharpoonup> string list) \<Rightarrow> amount \<Rightarrow> (amount \<rightharpoonup> string list) \<times> string list" where
  "getitem d k = (case d k of None \<Rightarrow> (d(k \<mapsto> []), []) | Some l \<Rightarrow> (d, l))"

text \<open>\<open>l[0]\<close> on a list raises \<open>IndexError\<close> when the list is empty.\<close>

definition first :: "string list \<Rightarrow> py_error + string" where
  "first l = (case l of [] \<Rightarrow> Inl IndexError | w # _ \<Rightarrow> Inr w)"

subsection \<open>Logging\<close>

text \<open>
  Every \<open>logging.info(f"...")\<close> builds its message before the call, whatever the log
  level. Converting an integer to decimal text raises \<open>ValueError\<close> when the integer
  has more than \<open>sys.get_int_max_str_digits()\<close> digits, 4300 unless reconfigured;
  strings and minus infinity always convert.
\<close>

definition max_str_digits :: nat where
  "max_str_digits = 4300"

definition int_formats :: "int \<Rightarrow> bool" where
  "int_formats n = (\<bar>n\<bar> < 10 ^ max_str_digits)"

fun formats :: "amount \<Rightarrow> bool" where
  "formats NegInf = True"
| "formats (Fin n) = int_formats n"

text \<open>A log line succeeds when each number its f-string interpolates converts.\<close>

definition logging_info :: "amount list \<Rightarrow> bool" where
  "logging_info vs = list_all formats vs"

subsection \<open>Operations\<close>

text \<open>
  \<open>place_bid(bidder_id, bid_amount)\<close>. A bid below \<open>min_bid\<close> is logged (line 39)
  and discarded. Otherwise the bidder is appended to \<open>frequency[bid_amount]\<close>, the bid
  is logged (line 43), and only then the running maximum and its multiplicity are
  updated and logged (lines 45 to 51). The result pairs the state after the call with
  its outcome; an exception leaves the state as far as the method got.
\<close>

definition place_bid :: "string \<Rightarrow> int \<Rightarrow> auction \<Rightarrow> auction \<times> outcome" where
  "place_bid bidder_id bid_amount s =
     (if Fin bid_amount < min_bid s
      then (if logging_info [Fin bid_amount, min_bid s] then (s, Inr None)
            else (s, Inl ValueError))
      else
        let (d, l) = getitem (frequency s) (Fin bid_amount);
            s1 = s\<lparr>frequency := d(Fin bid_amount \<mapsto> l @ [bidder_id])\<rparr>
        in if \<not> logging_info [Fin bid_amount] then (s1, Inl ValueError)
           else if Fin bid_amount > current_max s1
           then (let s2 = s1\<lparr>current_max := Fin bid_amount, current_max_count := 1\<rparr>
                 in if logging_info [current_max s2] then (s2, Inr None)
                    else (s2, Inl ValueError))
           else if Fin bid_amount = current_max s1
           then (let s2 = s1\<lparr>current_max_count := current_max_count s1 + 1\<rparr>
                 in if logging_info [current_max s2, Fin (current_max_count s2)]
                    then (s2, Inr None)
                    else (s2, Inl ValueError))
           else (s1, Inr None))"

text \<open>
  \<open>close_auction(tie_breaker_first_bid)\<close>: \<open>Inr (Some w)\<close> for a returned winner,
  \<open>Inr None\<close> for a returned \<open>None\<close>. The winner branch reads
  \<open>frequency[current_max][0]\<close> and logs \<open>current_max\<close> (line 69); the other branch
  logs \<open>current_max\<close> and \<open>current_max + 1\<close> (line 72) before it returns. The state
  is part of the result because the dictionary access can store a key.
\<close>

definition close_auction :: "bool \<Rightarrow> auction \<Rightarrow> auction \<times> outcome" where
  "close_auction tie_breaker_first_bid s =
     (if current_max_count s = 1 \<or> tie_breaker_first_bid
      then
        let (d, l) = getitem (frequency s) (current_max s);
            s1 = s\<lparr>frequency := d\<rparr>
        in (case first l of
              Inl e \<Rightarrow> (s1, Inl e)
            | Inr winner \<Rightarrow>
                if logging_info [current_max s1] then (s1, Inr (Some winner))
                else (s1, Inl ValueError))
      else if logging_info [current_max s, plus_one (current_max s)] then (s, Inr None)
      else (s, Inl ValueError))"

text \<open>\<open>restart_auction()\<close>: the four assignments, then the log of the new floor (line 85).\<close>

definition restart_auction :: "auction \<Rightarrow> auction \<times> outcome" where
  "restart_auction s =
     (let s1 = s\<lparr>min_bid := plus_one (current_max s),
                  frequency := Map.empty,
                  current_max := NegInf,
                  current_max_count := 0\<rparr>
      in if logging_info [min_bid s1] then (s1, Inr None) else (s1, Inl ValueError))"

subsection \<open>Sequences of calls\<close>

datatype call = PlaceBid string int | CloseAuction bool | RestartAuction

text \<open>One call on the ledger: the state it leaves and its outcome.\<close>

fun do_call :: "call \<Rightarrow> auction \<Rightarrow> auction \<times> outcome" where
  "do_call (PlaceBid b a) s = place_bid b a s"
| "do_call (CloseAuction t) s = close_auction t s"
| "do_call RestartAuction s = restart_auction s"

text \<open>
  The state after a sequence of calls, each made on the state the previous one left
  (a caller that catches an exception goes on with the ledger as the failed call left it).
\<close>

fun run :: "call list \<Rightarrow> auction \<Rightarrow> auction" where
  "run [] s = s"
| "run (c # cs) s = run cs (fst (do_call c s))"

text \<open>No call of the sequence raises.\<close>

fun no_raise :: "call list \<Rightarrow> auction \<Rightarrow> bool" where
  "no_raise [] s = True"
| "no_raise (c # cs) s = (case do_call c s of (s', Inl e) \<Rightarrow> False | (s', Inr r) \<Rightarrow> no_raise cs s')"


text \<open>A sequence of bids, placed in order.\<close>

fun place_bids :: "(string \<times> int) list \<Rightarrow> auction \<Rightarrow> auction" where
  "place_bids [] s = s"
| "place_bids ((b, a) # bs) s = place_bids bs (fst (place_bid b a s))"

text \<open>
  The calls of the example at the end of Auction.py, made on \<open>Auction(min_bid=10)\<close>:
  Bidder1 bids 15, Bidder2 and Bidder3 bid 20.
\<close>

definition example_bids :: "(string \<times> int) list" where
  "example_bids = [(''Bidder1'', 15), (''Bidder2'', 20), (''Bidder3'', 20)]"

definition example_calls :: "call list" where
  "example_calls = [PlaceBid ''Bidder1'' 15, PlaceBid ''Bidder2'' 20, PlaceBid ''Bidder3'' 20]"

subsection \<open>Auxiliary notions for the proofs\<close>

text \<open>
  What every call preserves, whatever its outcome: integer keys are at least the floor,
  the key minus infinity (if present at all) holds the empty list, no key that converts
  to text exceeds the running maximum, the running maximum converts to text and, once an
  integer, is a key whose list is non-empty and has \<open>current_max_count\<close> entries.
\<close>

definition ledger_inv :: "auction \<Rightarrow> bool" where
  "ledger_inv s =
     ((\<forall>a l. frequency s (Fin a) = Some l \<longrightarrow> min_bid s \<le> Fin a) \<and>
      (frequency s NegInf = None \<or> frequency s NegInf = Some []) \<and>
      (\<forall>k l. frequency s k = Some l \<longrightarrow> formats k \<longrightarrow> k \<le> current_max s) \<and>
      formats (current_max s) \<and>
      (case current_max s of
         NegInf \<Rightarrow> current_max_count s = 0
       | Fin x \<Rightarrow> (\<exists>l. frequency s (Fin x) = Some l \<and> l \<noteq> [] \<and>
                       current_max_count s = int (length l))))"


text \<open>The largest amount of a list of bids, minus infinity for the empty list.\<close>

definition top_amount :: "(string \<times> int) list \<Rightarrow> amount" where
  "top_amount bs = Max (insert NegInf ((\<lambda>p. Fin (snd p)) ` set bs))"

section \<open>Basic facts\<close>

lemma Fin_less [simp]: "(Fin a < Fin b) = (a < b)"
  by (auto simp: less_amount_def)

lemma NegInf_less [simp]: "(NegInf < x) = (x \<noteq> NegInf)" "\<not> x < NegInf"
  by (cases x; simp add: less_amount_def)+

lemma le_NegInf [simp]: "(x \<le> NegInf) = (x = NegInf)"
  by (cases x) simp_all

lemma max_NegInf [simp]: "max NegInf x = x" "max x NegInf = x"
  by (simp_all add: max_def)

lemma le_Fin_trans: "k \<le> Fin x \<Longrightarrow> x < a \<Longrightarrow> k \<le> Fin a"
  by (cases k) simp_all

subsection \<open>Which integers convert to text\<close>

lemma limit_large: "(10000::int) < 10 ^ max_str_digits"
proof -
  have "(10::int) ^ 4 < 10 ^ max_str_digits"
    by (rule power_strict_increasing) (simp_all add: max_str_digits_def)
  then show ?thesis by simp
qed

lemma int_formats_small [simp]: "\<bar>n\<bar> \<le> 10000 \<Longrightarrow> int_formats n"
  using limit_large unfolding int_formats_def by linarith

lemma limit_not_formats: "\<not> int_formats (10 ^ max_str_digits)"
  by (simp add: int_formats_def)

lemma below_limit_formats: "int_formats (10 ^ max_str_digits - 1)"
  using limit_large unfolding int_formats_def by linarith

lemma limit_ge_floor: "(10::int) \<le> 10 ^ max_str_digits" "(10::int) \<le> 10 ^ max_str_digits - 1"
  using limit_large by linarith+

subsection \<open>The state and the outcome of \<open>place_bid\<close>\<close>

lemma min_bid_place_bid [simp]: "min_bid (fst (place_bid b a s)) = min_bid s"
  by (simp add: place_bid_def getitem_def Let_def split: option.splits)

lemma frequency_place_bid:
  "frequency (fst (place_bid b a s)) =
     (if Fin a < min_bid s then frequency s
      else (frequency s)(Fin a \<mapsto> (case frequency s (Fin a) of None \<Rightarrow> [] | Some l \<Rightarrow> l) @ [b]))"
  by (simp add: place_bid_def getitem_def Let_def split: option.splits)

lemma current_max_place_bid:
  "current_max (fst (place_bid b a s)) =
     (if Fin a < min_bid s \<or> \<not> int_formats a then current_max s
      else max (current_max s) (Fin a))"
  by (auto simp: place_bid_def getitem_def Let_def max_def logging_info_def split: option.splits)

lemma current_max_count_place_bid:
  "current_max_count (fst (place_bid b a s)) =
     (if Fin a < min_bid s \<or> \<not> int_formats a then current_max_count s
      else if current_max s < Fin a then 1
      else if Fin a = current_max s then current_max_count s + 1
      else current_max_count s)"
  by (cases "current_max s")
     (auto simp: place_bid_def getitem_def Let_def logging_info_def split: option.splits)

text \<open>
  An accepted bid whose amount does not convert to text: the bidder is recorded, line 43
  raises, and the running maximum and its count are left as they were.
\<close>

lemma place_bid_unprintable:
  "\<not> Fin a < min_bid s \<Longrightarrow> \<not> int_formats a \<Longrightarrow>
     place_bid b a s =
       (s\<lparr>frequency := (frequency s)(Fin a \<mapsto>
             (case frequency s (Fin a) of None \<Rightarrow> [] | Some l \<Rightarrow> l) @ [b])\<rparr>,
        Inl ValueError)"
  by (simp add: place_bid_def getitem_def logging_info_def split: option.splits)


subsection \<open>The example\<close>

lemma example_state:
  "run example_calls (Auction_init 10) =
     \<lparr>min_bid = Fin 10,
      frequency = [Fin 15 \<mapsto> [''Bidder1''], Fin 20 \<mapsto> [''Bidder2'', ''Bidder3'']],
      current_max = Fin 20, current_max_count = 2\<rparr>"
  by (simp add: example_calls_def Auction_init_def place_bid_def getitem_def logging_info_def)


subsection \<open>Sequences of bids\<close>

lemma place_bids_snoc: "place_bids (bs @ [(b, a)]) s = fst (place_bid b a (place_bids bs s))"
  by (induction bs arbitrary: s) auto

lemma min_bid_place_bids [simp]: "min_bid (place_bids bs s) = min_bid s"
  by (induction bs arbitrary: s) auto

lemma Max_Fin:
  assumes "finite A" and "A \<noteq> {}"
  shows "Max (insert NegInf (Fin ` A)) = Fin (Max A)"
proof -
  have "mono Fin" by (rule monoI) simp
  then have "Fin (Max A) = Max (Fin ` A)"
    using assms by (rule mono_Max_commute)
  moreover have "Max (insert NegInf (Fin ` A)) = max NegInf (Max (Fin ` A))"
    using assms by (intro Max_insert) auto
  ultimately show ?thesis by simp
qed

lemma top_amount_snoc: "top_amount (bs @ [(b, a)]) = max (Fin a) (top_amount bs)"
proof -
  have "insert NegInf ((\<lambda>p. Fin (snd p)) ` set (bs @ [(b, a)]))
        = insert (Fin a) (insert NegInf ((\<lambda>p. Fin (snd p)) ` set bs))"
    by auto
  then show ?thesis
    unfolding top_amount_def by (simp del: Max_insert add: Max_insert [of "insert NegInf _"])
qed

lemma top_amount_ge: "p \<in> set bs \<Longrightarrow> Fin (snd p) \<le> top_amount bs"
  unfolding top_amount_def by (intro Max_ge) auto

text \<open>
  From the start of a round, bids that all reach the floor and all convert to text leave
  the largest amount in \<open>current_max\<close> and the number of bids of that amount in
  \<open>current_max_count\<close>. The induction adds the last bid, as the calls do.
\<close>

lemma place_bids_running_max:
  assumes "current_max s = NegInf" and "current_max_count s = 0"
    and "\<forall>p \<in> set bs. min_bid s \<le> Fin (snd p) \<and> int_formats (snd p)"
  shows "current_max (place_bids bs s) = top_amount bs \<and>
         current_max_count (place_bids bs s) =
           int (length (filter (\<lambda>p. Fin (snd p) = top_amount bs) bs))"
  using assms(3)
proof (induction bs rule: rev_induct)
  case Nil
  then show ?case using assms(1,2) by (simp add: top_amount_def)
next
  case (snoc p bs)
  obtain b a where p: "p = (b, a)" by (cases p)
  let ?s = "place_bids bs s"
  from snoc have IH: "current_max ?s = top_amount bs"
    "current_max_count ?s = int (length (filter (\<lambda>p. Fin (snd p) = top_amount bs) bs))"
    by simp_all
  from snoc.prems p have ok: "\<not> Fin a < min_bid ?s" "int_formats a"
    by (simp_all add: not_less)
  consider (gt) "top_amount bs < Fin a" | (eq) "Fin a = top_amount bs" | (lt) "Fin a < top_amount bs"
    by (rule linorder_cases [of "top_amount bs" "Fin a"]) auto
  then show ?case
  proof cases
    case gt
    then have le: "top_amount bs \<le> Fin a" by (rule less_imp_le)
    then have top: "top_amount (bs @ [p]) = Fin a"
      by (simp add: p top_amount_snoc max_absorb1)
    have "filter (\<lambda>q. Fin (snd q) = Fin a) bs = []"
      using gt top_amount_ge [of _ bs] by (fastforce simp: filter_empty_conv)
    with gt le ok IH top show ?thesis
      by (simp add: p place_bids_snoc current_max_place_bid current_max_count_place_bid
            max_absorb2)
  next
    case eq
    then have top: "top_amount (bs @ [p]) = top_amount bs"
      by (simp add: p top_amount_snoc)
    with eq ok IH show ?thesis
      by (simp add: p place_bids_snoc current_max_place_bid current_max_count_place_bid)
  next
    case lt
    then have le: "Fin a \<le> top_amount bs" and ne: "Fin a \<noteq> top_amount bs"
      and ngt: "\<not> top_amount bs < Fin a"
      by (simp_all add: less_imp_le not_less_iff_gr_or_eq)
    then have top: "top_amount (bs @ [p]) = top_amount bs"
      by (simp add: p top_amount_snoc max_absorb2)
    with le ne ngt ok IH show ?thesis
      by (simp add: p place_bids_snoc current_max_place_bid current_max_count_place_bid
            max_absorb1)
  qed
qed

lemma running_max_printable:
  assumes "current_max s = NegInf" and "current_max_count s = 0"
    and "\<forall>p \<in> set bs. min_bid s \<le> Fin (snd p) \<and> int_formats (snd p)" and "bs \<noteq> []"
  shows "current_max (place_bids bs s) = Fin (Max (snd ` set bs)) \<and>
         current_max_count (place_bids bs s) =
           int (length (filter (\<lambda>p. snd p = Max (snd ` set bs)) bs))"
proof -
  have "top_amount bs = Fin (Max (snd ` set bs))"
    using assms(4) Max_Fin [of "snd ` set bs"] by (simp add: top_amount_def image_image)
  with place_bids_running_max [OF assms(1-3)] show ?thesis by simp
qed

subsection \<open>The invariant\<close>

lemma ledger_inv_init: "ledger_inv (Auction_init m)"
  by (simp add: ledger_inv_def Auction_init_def)

lemma ledger_inv_restart: "ledger_inv (fst (restart_auction s))"
  by (simp add: ledger_inv_def restart_auction_def Let_def)

lemma ledger_inv_place_bid:
  assumes "ledger_inv s"
  shows "ledger_inv (fst (place_bid b a s))"
proof (cases "Fin a < min_bid s")
  case True
  then show ?thesis using assms by (simp add: place_bid_def)
next
  case False
  show ?thesis
  proof (cases "int_formats a")
    case unprintable: False
    have "formats (current_max s)"
      using assms by (simp add: ledger_inv_def)
    with unprintable have "Fin a \<noteq> current_max s"
      by (metis formats.simps(2))
    then show ?thesis
      using assms False unprintable
      by (cases "current_max s")
         (auto simp: ledger_inv_def place_bid_unprintable split: option.splits)
  next
    case printable: True
    show ?thesis
    proof (cases "current_max s")
      case NegInf
      with assms False printable show ?thesis
        by (auto simp: ledger_inv_def frequency_place_bid current_max_place_bid
              current_max_count_place_bid max_def not_less split: option.splits)
    next
      case (Fin x)
      with assms False printable show ?thesis
        by (auto simp: ledger_inv_def frequency_place_bid current_max_place_bid
              current_max_count_place_bid max_def not_less split: option.splits)
           (blast intro: le_Fin_trans)+
    qed
  qed
qed

lemma ledger_inv_close:
  assumes "ledger_inv s"
  shows "ledger_inv (fst (close_auction t s))"
  using assms
  by (cases "current_max s")
     (auto simp: ledger_inv_def close_auction_def getitem_def first_def
           split: option.splits list.splits sum.splits)

lemma ledger_inv_do_call: "ledger_inv s \<Longrightarrow> ledger_inv (fst (do_call c s))"
  by (cases c) (simp_all add: ledger_inv_place_bid ledger_inv_close ledger_inv_restart)

lemma ledger_inv_run: "ledger_inv s \<Longrightarrow> ledger_inv (run cs s)"
  by (induction cs arbitrary: s) (simp_all add: ledger_inv_do_call)




section \<open>Rejected bids\<close>

text \<open>
  Claim C4. A \<open>place_bid\<close> call whose amount is below the floor \<open>min_bid\<close> is
  rejected without any change of state: the ledger after the call is the ledger before
  it, so the amount is not added as a key of \<open>frequency\<close>, and \<open>min_bid\<close>,
  \<open>current_max\<close> and \<open>current_max_count\<close> keep their values.
\<close>

theorem place_bid_below_floor_rejected:
  "Fin a < min_bid s \<Longrightarrow>
     fst (place_bid b a s) = s \<and>
     dom (frequency (fst (place_bid b a s))) = dom (frequency s) \<and>
     min_bid (fst (place_bid b a s)) = min_bid s \<and>
     current_max (fst (place_bid b a s)) = current_max s \<and>
     current_max_count (fst (place_bid b a s)) = current_max_count s"
  by (simp add: place_bid_def)

theorem place_bid_below_floor_rejected_witness:
  "Fin 5 < min_bid (Auction_init 10) \<and>
   place_bid ''BidderY'' 5 (Auction_init 10) = (Auction_init 10, Inr None) \<and>
   dom (frequency (fst (place_bid ''BidderY'' 5 (Auction_init 10)))) = {} \<and>
   current_max (fst (place_bid ''BidderY'' 5 (Auction_init 10))) = NegInf"
  using place_bid_below_floor_rejected [of 5 "Auction_init 10" "''BidderY''"]
  by (simp add: Auction_init_def place_bid_def logging_info_def)

section \<open>The running maximum\<close>

text \<open>
  Claim C1 says that after bids that all reach the floor \<open>current_max\<close> is the
  maximum of the accepted amounts and \<open>current_max_count\<close> the number of bids of that
  amount. The code misses this for an amount of more than 4300 digits: on
  \<open>Auction(10)\<close> the bid of \<open>10 ^ 4300\<close> reaches the floor and is recorded in
  \<open>frequency\<close>, then the log line raises \<open>ValueError\<close> before the update, and
  \<open>current_max\<close> stays unset with \<open>current_max_count = 0\<close>.
\<close>

theorem running_max_misses_unprintable_bid:
  "min_bid (Auction_init 10) \<le> Fin (10 ^ max_str_digits) \<and>
   place_bid ''A'' (10 ^ max_str_digits) (Auction_init 10) =
     (\<lparr>min_bid = Fin 10, frequency = [Fin (10 ^ max_str_digits) \<mapsto> [''A'']],
       current_max = NegInf, current_max_count = 0\<rparr>, Inl ValueError) \<and>
   frequency (place_bids [(''A'', 10 ^ max_str_digits)] (Auction_init 10))
     (Fin (10 ^ max_str_digits)) = Some [''A''] \<and>
   current_max (place_bids [(''A'', 10 ^ max_str_digits)] (Auction_init 10)) = NegInf \<and>
   current_max_count (place_bids [(''A'', 10 ^ max_str_digits)] (Auction_init 10)) = 0"
proof -
  have "\<not> Fin (10 ^ max_str_digits) < min_bid (Auction_init 10)"
    using limit_ge_floor(1) by (simp add: Auction_init_def)
  from place_bid_unprintable [OF this limit_not_formats, of "''A''"]
  show ?thesis
    using limit_ge_floor(1) by (simp add: Auction_init_def)
qed

section \<open>Closing\<close>


text \<open>
  Where \<open>current_max\<close> is set, the claim holds: in every state reached from
  construction the list at \<open>current_max\<close> is non-empty and has \<open>current_max_count\<close>
  entries, and the winner branch returns its first element and changes nothing.
\<close>

lemma close_auction_winner_max_set:
  assumes "current_max (run cs (Auction_init m)) = Fin x"
    and "current_max_count (run cs (Auction_init m)) = 1 \<or> t"
  shows "\<exists>w ws. frequency (run cs (Auction_init m)) (Fin x) = Some (w # ws) \<and>
           (current_max_count (run cs (Auction_init m)) = 1 \<longrightarrow> ws = []) \<and>
           close_auction t (run cs (Auction_init m)) = (run cs (Auction_init m), Inr (Some w))"
proof -
  define s where "s = run cs (Auction_init m)"
  have inv: "ledger_inv s"
    unfolding s_def by (rule ledger_inv_run [OF ledger_inv_init])
  with assms(1) obtain l where l: "frequency s (Fin x) = Some l" "l \<noteq> []"
    "current_max_count s = int (length l)" and fm: "int_formats x"
    by (auto simp: ledger_inv_def s_def)
  then obtain w ws where ws: "l = w # ws" by (cases l) auto
  have "close_auction t s = (s, Inr (Some w))"
    using assms l ws fm
    by (simp add: close_auction_def getitem_def first_def logging_info_def s_def)
  moreover have "current_max_count s = 1 \<longrightarrow> ws = []"
    using l ws by simp
  ultimately show ?thesis using l ws unfolding s_def by blast
qed

text \<open>
  Claim C3 says that with \<open>current_max_count \<ge> 2\<close> and no tie-breaker
  \<open>close_auction\<close> returns \<open>None\<close> and leaves the state unchanged. On
  \<open>Auction(10)\<close>, after A and B both bid \<open>10 ^ 4300 - 1\<close> (both calls return
  normally, the count is 2), the call raises \<open>ValueError\<close> instead: its log line
  converts \<open>current_max + 1\<close>, which has 4301 digits. The state is unchanged.
\<close>

theorem close_auction_tie_log_raises:
  "no_raise [PlaceBid ''A'' (10 ^ max_str_digits - 1), PlaceBid ''B'' (10 ^ max_str_digits - 1)]
     (Auction_init 10) \<and>
   run [PlaceBid ''A'' (10 ^ max_str_digits - 1), PlaceBid ''B'' (10 ^ max_str_digits - 1)]
     (Auction_init 10) =
     \<lparr>min_bid = Fin 10, frequency = [Fin (10 ^ max_str_digits - 1) \<mapsto> [''A'', ''B'']],
      current_max = Fin (10 ^ max_str_digits - 1), current_max_count = 2\<rparr> \<and>
   close_auction False
     \<lparr>min_bid = Fin 10, frequency = [Fin (10 ^ max_str_digits - 1) \<mapsto> [''A'', ''B'']],
      current_max = Fin (10 ^ max_str_digits - 1), current_max_count = 2\<rparr> =
     (\<lparr>min_bid = Fin 10, frequency = [Fin (10 ^ max_str_digits - 1) \<mapsto> [''A'', ''B'']],
       current_max = Fin (10 ^ max_str_digits - 1), current_max_count = 2\<rparr>, Inl ValueError)"
proof -
  define a :: int where "a = 10 ^ max_str_digits - 1"
  have a: "\<not> a < 10" "int_formats a" "\<not> int_formats (a + 1)"
    using limit_ge_floor(2) below_limit_formats limit_not_formats by (simp_all add: a_def)
  have first: "place_bid ''A'' a (Auction_init 10) =
      (\<lparr>min_bid = Fin 10, frequency = [Fin a \<mapsto> [''A'']],
        current_max = Fin a, current_max_count = 1\<rparr>, Inr None)"
    using a by (simp add: place_bid_def getitem_def logging_info_def Auction_init_def)
  have second: "place_bid ''B'' a
      \<lparr>min_bid = Fin 10, frequency = [Fin a \<mapsto> [''A'']],
        current_max = Fin a, current_max_count = 1\<rparr> =
      (\<lparr>min_bid = Fin 10, frequency = [Fin a \<mapsto> [''A'', ''B'']],
        current_max = Fin a, current_max_count = 2\<rparr>, Inr None)"
    using a by (simp add: place_bid_def getitem_def logging_info_def)
  have close: "close_auction False
      \<lparr>min_bid = Fin 10, frequency = [Fin a \<mapsto> [''A'', ''B'']],
        current_max = Fin a, current_max_count = 2\<rparr> =
      (\<lparr>min_bid = Fin 10, frequency = [Fin a \<mapsto> [''A'', ''B'']],
        current_max = Fin a, current_max_count = 2\<rparr>, Inl ValueError)"
    using a by (simp add: close_auction_def logging_info_def)
  show ?thesis
    using first second close unfolding a_def by simp
qed

text \<open>
  In every state with \<open>current_max_count \<ge> 2\<close> the call without tie-breaker leaves
  the state unchanged, and it returns \<open>None\<close> when its log line converts.
\<close>

lemma close_auction_tie_state:
  "2 \<le> current_max_count s \<Longrightarrow>
     fst (close_auction False s) = s \<and>
     (logging_info [current_max s, plus_one (current_max s)] \<longrightarrow>
        close_auction False s = (s, Inr None))"
  by (simp add: close_auction_def)

text \<open>
  Claim C10. In a ledger without an accepted bid (\<open>current_max\<close> still minus
  infinity, \<open>current_max_count = 0\<close>), \<open>close_auction\<close> without the tie-breaker
  returns \<open>None\<close>; the state is unchanged.
\<close>

theorem close_auction_no_bids_none:
  "current_max s = NegInf \<Longrightarrow> current_max_count s = 0 \<Longrightarrow>
     close_auction False s = (s, Inr None)"
  by (simp add: close_auction_def logging_info_def)

theorem close_auction_no_bids_none_witness:
  "current_max (Auction_init 10) = NegInf \<and> current_max_count (Auction_init 10) = 0 \<and>
   close_auction False (Auction_init 10) = (Auction_init 10, Inr None)"
  using close_auction_no_bids_none [of "Auction_init 10"]
  by (simp add: Auction_init_def)

text \<open>
  Claim C9. In every state reached from construction in which \<open>current_max\<close> is
  unset (no bid accepted in the round), \<open>close_auction\<close> with the tie-breaker takes the
  winner branch, reads the empty list at the key minus infinity and raises
  \<open>IndexError\<close> on its first element: no winner is returned.
\<close>

theorem close_auction_no_bids_raises:
  assumes "current_max (run cs (Auction_init m)) = NegInf"
  shows "snd (getitem (frequency (run cs (Auction_init m))) (current_max (run cs (Auction_init m)))) = [] \<and>
         snd (close_auction True (run cs (Auction_init m))) = Inl IndexError"
proof -
  define s where "s = run cs (Auction_init m)"
  have inv: "ledger_inv s"
    unfolding s_def by (rule ledger_inv_run [OF ledger_inv_init])
  then have "frequency s NegInf = None \<or> frequency s NegInf = Some []"
    by (simp add: ledger_inv_def)
  then show ?thesis using assms
    by (auto simp: close_auction_def getitem_def first_def s_def)
qed

theorem close_auction_no_bids_raises_witness:
  "current_max (run [PlaceBid ''BidderY'' 5] (Auction_init 10)) = NegInf \<and>
   snd (close_auction True (run [PlaceBid ''BidderY'' 5] (Auction_init 10))) = Inl IndexError"
  using close_auction_no_bids_raises [of "[PlaceBid ''BidderY'' 5]" 10]
  by (simp add: Auction_init_def place_bid_def)

section \<open>Restarting\<close>

text \<open>
  Claim C5. When \<open>current_max\<close> is set to an integer \<open>m\<close>, \<open>restart_auction\<close>
  leaves a ledger whose floor is \<open>m + 1\<close>, whose \<open>frequency\<close> is empty, whose
  \<open>current_max\<close> is unset and whose \<open>current_max_count\<close> is 0; a bid of the old
  maximum \<open>m\<close> placed next is rejected (the state does not change).
\<close>

theorem restart_auction_raises_floor:
  "current_max s = Fin m \<Longrightarrow>
     min_bid (fst (restart_auction s)) = Fin (m + 1) \<and>
     frequency (fst (restart_auction s)) = Map.empty \<and>
     current_max (fst (restart_auction s)) = NegInf \<and>
     current_max_count (fst (restart_auction s)) = 0 \<and>
     Fin m < min_bid (fst (restart_auction s)) \<and>
     fst (place_bid b m (fst (restart_auction s))) = fst (restart_auction s)"
  by (simp add: restart_auction_def place_bid_def Let_def)

theorem restart_auction_raises_floor_witness:
  "current_max (run example_calls (Auction_init 10)) = Fin 20 \<and>
   min_bid (fst (restart_auction (run example_calls (Auction_init 10)))) = Fin 21 \<and>
   frequency (fst (restart_auction (run example_calls (Auction_init 10)))) = Map.empty \<and>
   fst (place_bid ''Bidder1'' 20 (fst (restart_auction (run example_calls (Auction_init 10)))))
     = fst (restart_auction (run example_calls (Auction_init 10)))"
  using restart_auction_raises_floor
    [of "run example_calls (Auction_init 10)" 20 "''Bidder1''"]
  by (simp add: example_state)

text \<open>
  Claim C8 says that \<open>restart_auction\<close> on a ledger without an accepted bid is
  guarded or fails. It is neither: on \<open>Auction(10)\<close> the call returns normally and
  the floor 10 is replaced by minus infinity, computed from the unset maximum.
\<close>

theorem restart_auction_no_bids_counterexample:
  "\<not> (isl (snd (do_call RestartAuction (Auction_init 10))) \<or>
      min_bid (fst (do_call RestartAuction (Auction_init 10))) = min_bid (Auction_init 10))"
  by (simp add: restart_auction_def Auction_init_def logging_info_def)

text \<open>
  Claim C8, amended. \<open>restart_auction\<close> on a ledger whose \<open>current_max\<close> is
  unset returns normally and sets the floor to minus infinity (the unset maximum plus
  one), with \<open>frequency\<close> empty, \<open>current_max\<close> unset and \<open>current_max_count\<close>
  0; no later bid is below that floor.
\<close>

theorem restart_auction_no_bids:
  "current_max s = NegInf \<Longrightarrow>
     do_call RestartAuction s =
       (\<lparr>min_bid = NegInf, frequency = Map.empty, current_max = NegInf,
         current_max_count = 0\<rparr>, Inr None) \<and>
     \<not> Fin a < min_bid (fst (restart_auction s))"
  by (simp add: restart_auction_def logging_info_def)

theorem restart_auction_no_bids_witness:
  "current_max (Auction_init 10) = NegInf \<and>
   do_call RestartAuction (Auction_init 10) =
     (\<lparr>min_bid = NegInf, frequency = Map.empty, current_max = NegInf,
       current_max_count = 0\<rparr>, Inr None) \<and>
   \<not> Fin 3 < min_bid (fst (restart_auction (Auction_init 10)))"
  using restart_auction_no_bids [of "Auction_init 10" 3]
  by (simp add: Auction_init_def)

section \<open>Invariants of the ledger\<close>




section \<open>Closing twice\<close>

text \<open>
  Claim C7 says that \<open>close_auction\<close> leaves every state unchanged. On the new ledger
  \<open>Auction(10)\<close> the call with the tie-breaker stores the key minus infinity in
  \<open>frequency\<close> before it raises, so the state after the call differs.
\<close>

theorem close_auction_read_only_counterexample:
  "fst (close_auction True (Auction_init 10)) \<noteq> Auction_init 10 \<and>
   frequency (fst (close_auction True (Auction_init 10))) NegInf = Some [] \<and>
   frequency (Auction_init 10) NegInf = None"
  by (simp add: close_auction_def getitem_def first_def Auction_init_def)

text \<open>
  Claim C7, amended. \<open>close_auction\<close> leaves the state unchanged whenever
  \<open>frequency\<close> has the key \<open>current_max\<close> or the winner branch is not taken; and in
  every state, with either value of the tie-breaker, a second call right after the
  first has the same outcome as the first and changes nothing any more.
\<close>

theorem close_auction_read_only:
  "(frequency s (current_max s) \<noteq> None \<or> \<not> (current_max_count s = 1 \<or> t) \<longrightarrow>
      fst (close_auction t s) = s) \<and>
   snd (close_auction t (fst (close_auction t s))) = snd (close_auction t s) \<and>
   fst (close_auction t (fst (close_auction t s))) = fst (close_auction t s)"
  by (auto simp: close_auction_def getitem_def first_def split: option.splits list.splits)

theorem close_auction_read_only_witness:
  "frequency (run example_calls (Auction_init 10)) (current_max (run example_calls (Auction_init 10))) \<noteq> None \<and>
   fst (close_auction True (run example_calls (Auction_init 10))) = run example_calls (Auction_init 10) \<and>
   snd (close_auction True (fst (close_auction True (run example_calls (Auction_init 10)))))
     = snd (close_auction True (run example_calls (Auction_init 10)))"
  using close_auction_read_only [of "run example_calls (Auction_init 10)" True]
  by (simp add: example_state)

end
